theory Spec2Isabelle
  imports Complex_Main "HOL-Library.Sublist"
begin

section \<open>Values of the JavaScript runtime\<close>

text \<open>
  The server (\<^verbatim>\<open>src/index.ts\<close>) receives JSON arguments, hands records to the LanceDB
  connection and answers with a text. A JSON object is a finite map from keys to values;
  a JavaScript \<^verbatim>\<open>number\<close> is modelled as a real (the server does no arithmetic on the
  numbers it forwards, so rounding plays no role).
\<close>

datatype json =
    JNull
  | JBool bool
  | JNum real
  | JStr string
  | JArr "json list"
  | JObj "string \<rightharpoonup> json"

type_synonym row = "string \<rightharpoonup> json"

text \<open>An \<^verbatim>\<open>Error\<close> object: its \<^verbatim>\<open>name\<close> and its \<^verbatim>\<open>message\<close>.\<close>

datatype js_error = Error (name: string) (message: string)

definition new_Error :: "string \<Rightarrow> js_error" where
  \<comment> \<open>\<^verbatim>\<open>new Error(msg)\<close>\<close>
  "new_Error msg = Error ''Error'' msg"

definition toString :: "js_error \<Rightarrow> string" where
  \<comment> \<open>\<^verbatim>\<open>`${error}`\<close>, that is \<^verbatim>\<open>Error.prototype.toString\<close>\<close>
  "toString e =
     (if name e = [] then message e
      else if message e = [] then name e
      else name e @ '': '' @ message e)"

fun str_includes :: "string \<Rightarrow> string \<Rightarrow> bool" where
  \<comment> \<open>\<^verbatim>\<open>s.includes(sub)\<close>\<close>
  "str_includes [] sub = (sub = [])"
| "str_includes (c # cs) sub = (prefix sub (c # cs) \<or> str_includes cs sub)"

fun show_nat :: "nat \<Rightarrow> string" where
  \<comment> \<open>\<^verbatim>\<open>`${n}`\<close> for a non-negative integer such as an array length\<close>
  "show_nat n =
     (if n < 10 then [''0123456789'' ! n]
      else show_nat (n div 10) @ [''0123456789'' ! (n mod 10)])"

declare show_nat.simps [simp del]

definition truthy :: "string option \<Rightarrow> bool" where
  \<comment> \<open>\<^verbatim>\<open>if (s)\<close> for a \<^verbatim>\<open>string | undefined\<close>: undefined and the empty string are falsy\<close>
  "truthy s = (case s of None \<Rightarrow> False | Some t \<Rightarrow> t \<noteq> [])"

record response =
  content_text :: string
  isError :: bool

section \<open>Argument validation (the zod schemas)\<close>

datatype path_elem = Key string | Index nat

datatype ZodIssue =
    invalid_type "path_elem list"
  | invalid_enum_value "path_elem list"
  | custom string

text \<open>
  Every validator takes the path of the value and the value itself, \<open>None\<close> standing for
  \<^verbatim>\<open>undefined\<close> (a key that the arguments do not have), and returns the issues or the
  parsed value.
\<close>

definition z_string :: "path_elem list \<Rightarrow> json option \<Rightarrow> ZodIssue list + string" where
  "z_string p v = (case v of Some (JStr s) \<Rightarrow> Inr s | _ \<Rightarrow> Inl [invalid_type p])"

definition z_number :: "path_elem list \<Rightarrow> json option \<Rightarrow> ZodIssue list + real" where
  "z_number p v = (case v of Some (JNum n) \<Rightarrow> Inr n | _ \<Rightarrow> Inl [invalid_type p])"

definition z_boolean :: "path_elem list \<Rightarrow> json option \<Rightarrow> ZodIssue list + bool" where
  "z_boolean p v = (case v of Some (JBool b) \<Rightarrow> Inr b | _ \<Rightarrow> Inl [invalid_type p])"

definition z_enum :: "string list \<Rightarrow> path_elem list \<Rightarrow> json option \<Rightarrow> ZodIssue list + string" where
  "z_enum opts p v =
     (case v of
        Some (JStr s) \<Rightarrow> if s \<in> set opts then Inr s else Inl [invalid_enum_value p]
      | _ \<Rightarrow> Inl [invalid_type p])"

fun z_items ::
  "(path_elem list \<Rightarrow> json option \<Rightarrow> ZodIssue list + 'a) \<Rightarrow> path_elem list \<Rightarrow> nat \<Rightarrow> json list
     \<Rightarrow> ZodIssue list + 'a list" where
  \<comment> \<open>the elements of an array, each at its index; the issues of all elements are collected\<close>
  "z_items elem p i [] = Inr []"
| "z_items elem p i (x # xs) =
     (case (elem (p @ [Index i]) (Some x), z_items elem p (Suc i) xs) of
        (Inr y, Inr ys) \<Rightarrow> Inr (y # ys)
      | (Inr y, Inl js) \<Rightarrow> Inl js
      | (Inl is, Inr ys) \<Rightarrow> Inl is
      | (Inl is, Inl js) \<Rightarrow> Inl (is @ js))"

definition z_array ::
  "(path_elem list \<Rightarrow> json option \<Rightarrow> ZodIssue list + 'a) \<Rightarrow> path_elem list \<Rightarrow> json option
     \<Rightarrow> ZodIssue list + 'a list" where
  "z_array elem p v = (case v of Some (JArr xs) \<Rightarrow> z_items elem p 0 xs | _ \<Rightarrow> Inl [invalid_type p])"

definition z_optional ::
  "(path_elem list \<Rightarrow> json option \<Rightarrow> ZodIssue list + 'a) \<Rightarrow> path_elem list \<Rightarrow> json option
     \<Rightarrow> ZodIssue list + 'a option" where
  "z_optional inner p v =
     (case v of
        None \<Rightarrow> Inr None
      | Some x \<Rightarrow> (case inner p (Some x) of Inl is \<Rightarrow> Inl is | Inr y \<Rightarrow> Inr (Some y)))"

definition issues :: "ZodIssue list + 'a \<Rightarrow> ZodIssue list" where
  "issues r = (case r of Inl is \<Rightarrow> is | Inr _ \<Rightarrow> [])"

definition z_vector_item :: "path_elem list \<Rightarrow> json option \<Rightarrow> ZodIssue list + row" where
  \<comment> \<open>\<^verbatim>\<open>z.object({ vector: z.array(z.number()) }).passthrough()\<close>: the other keys are kept\<close>
  "z_vector_item p v =
     (case v of
        Some (JObj item) \<Rightarrow>
          (case z_array z_number (p @ [Key ''vector'']) (item ''vector'') of
             Inl is \<Rightarrow> Inl is
           | Inr vector \<Rightarrow> Inr (item(''vector'' \<mapsto> JArr (map JNum vector))))
      | _ \<Rightarrow> Inl [invalid_type p])"

definition VectorAddArgsSchema :: "(string \<rightharpoonup> json) option \<Rightarrow> ZodIssue list + string \<times> row list" where
  \<comment> \<open>\<^verbatim>\<open>VectorAddArgsSchema.safeParse(args)\<close>; the result is the pair of \<^verbatim>\<open>table_name\<close> and \<^verbatim>\<open>vectors\<close>\<close>
  "VectorAddArgsSchema args =
     (case args of
        None \<Rightarrow> Inl [invalid_type []]
      | Some data \<Rightarrow>
          (case (z_string [Key ''table_name''] (data ''table_name''),
                 z_array z_vector_item [Key ''vectors''] (data ''vectors'')) of
             (Inr tname, Inr vectors) \<Rightarrow> Inr (tname, vectors)
           | (r1, r2) \<Rightarrow> Inl (issues r1 @ issues r2)))"

record VectorSearchArgs =
  table_name :: string
  query_vector :: "real list option"
  query_text :: "string option"
  limit :: "real option"
  distance_type :: "string option"
  where_filter :: "string option"
  with_vectors :: "bool option"

definition VectorSearchArgsObject :: "(string \<rightharpoonup> json) option \<Rightarrow> ZodIssue list + VectorSearchArgs" where
  \<comment> \<open>the \<^verbatim>\<open>z.object({...})\<close> of \<^verbatim>\<open>VectorSearchArgsSchema\<close>, before \<^verbatim>\<open>.refine\<close>\<close>
  "VectorSearchArgsObject args =
     (case args of
        None \<Rightarrow> Inl [invalid_type []]
      | Some data \<Rightarrow>
          (case (z_string [Key ''table_name''] (data ''table_name''),
                 z_optional (z_array z_number) [Key ''query_vector''] (data ''query_vector''),
                 z_optional z_string [Key ''query_text''] (data ''query_text''),
                 z_optional z_number [Key ''limit''] (data ''limit''),
                 z_optional (z_enum [''l2'', ''cosine'', ''dot'']) [Key ''distance_type'']
                   (data ''distance_type''),
                 z_optional z_string [Key ''where''] (data ''where''),
                 z_optional z_boolean [Key ''with_vectors''] (data ''with_vectors'')) of
             (Inr t, Inr qv, Inr qt, Inr l, Inr d, Inr w, Inr wv) \<Rightarrow>
               Inr \<lparr>table_name = t, query_vector = qv, query_text = qt, limit = l,
                    distance_type = d, where_filter = w, with_vectors = wv\<rparr>
           | (r1, r2, r3, r4, r5, r6, r7) \<Rightarrow>
               Inl (issues r1 @ issues r2 @ issues r3 @ issues r4 @ issues r5 @ issues r6
                      @ issues r7)))"

definition VectorSearchArgsSchema :: "(string \<rightharpoonup> json) option \<Rightarrow> ZodIssue list + VectorSearchArgs" where
  \<comment> \<open>\<^verbatim>\<open>VectorSearchArgsSchema.safeParse(args)\<close>: the refinement runs on a well-shaped object\<close>
  "VectorSearchArgsSchema args =
     (case VectorSearchArgsObject args of
        Inl is \<Rightarrow> Inl is
      | Inr data \<Rightarrow>
          if query_vector data \<noteq> None \<or> query_text data \<noteq> None then Inr data
          else Inl [custom ''Either query_vector or query_text must be provided''])"

section \<open>The collaborators: the LanceDB connection and the Ollama endpoint\<close>

text \<open>
  The storage engine and the embedding service are not part of the repository. The model
  takes them as parameters: each call of a collaborator maps the state \<open>'s\<close> of the outside
  world to a result, an error (\<open>Inl\<close>) where the call throws, and the next state. A table
  handle is identified with the name of the table it was opened for.
\<close>

record field =
  field_name :: string
  typeId :: int
  listSize :: nat

record query =
  q_vector :: "real list"
  q_distanceType :: string
  q_limit :: real
  q_where :: "string option"

record http_response =
  ok :: bool
  status :: nat
  statusText :: string
  body_json :: "js_error + real list"

record 's env =
  openTable :: "string \<Rightarrow> 's \<Rightarrow> (js_error + unit) \<times> 's"
  add :: "string \<Rightarrow> row list \<Rightarrow> 's \<Rightarrow> (js_error + unit) \<times> 's"
  createTable :: "string \<Rightarrow> row list \<Rightarrow> 's \<Rightarrow> (js_error + unit) \<times> 's"
  schema :: "string \<Rightarrow> 's \<Rightarrow> (js_error + field list) \<times> 's"
  toArray :: "string \<Rightarrow> query \<Rightarrow> 's \<Rightarrow> (js_error + row list) \<times> 's"
  tableNames :: "'s \<Rightarrow> (js_error + string list) \<times> 's"
  fetch :: "string \<Rightarrow> string \<Rightarrow> string \<Rightarrow> 's \<Rightarrow> (js_error + http_response) \<times> 's"
  JSON_stringify :: "json \<Rightarrow> string"
  zodErrorToString :: "ZodIssue list \<Rightarrow> string"
  ollamaEndpoint :: string
  ollamaModel :: string

text \<open>
  What a handler does to the outside is recorded as a list of events, in order: the calls
  of the collaborators with their arguments, and the lines written with
  \<^verbatim>\<open>console.error\<close>. \<open>ToArray\<close> carries the query as built by
  \<^verbatim>\<open>vectorSearch(..).distanceType(..).limit(..)\<close> and \<^verbatim>\<open>.where(..)\<close>; \<open>Fetch\<close> carries the
  URL and the \<^verbatim>\<open>model\<close> and \<^verbatim>\<open>prompt\<close> of the posted body.
\<close>

datatype event =
    OpenTable string
  | Add string "row list"
  | CreateTable string "row list"
  | Schema string
  | ToArray string query
  | TableNames
  | Fetch string string string
  | ConsoleError string

type_synonym ('a, 's) outcome = "(js_error + 'a) \<times> event list \<times> 's"

section \<open>generateEmbedding\<close>

definition generateEmbedding :: "'s env \<Rightarrow> string \<Rightarrow> 's \<Rightarrow> (real list, 's) outcome" where
  "generateEmbedding env txt s =
     (let call = Fetch (ollamaEndpoint env) (ollamaModel env) txt;
          failed = (\<lambda>e s'. (Inl e, [call, ConsoleError (''Error generating embedding: '' @ message e)], s'))
      in case fetch env (ollamaEndpoint env) (ollamaModel env) txt s of
           (Inl e, s1) \<Rightarrow> failed e s1
         | (Inr response, s1) \<Rightarrow>
             if \<not> ok response then
               failed (new_Error (''Ollama API error: '' @ show_nat (status response) @ '' ''
                                    @ statusText response)) s1
             else (case body_json response of
                     Inl e \<Rightarrow> failed e s1
                   | Inr embedding \<Rightarrow> (Inr embedding, [call], s1)))"

section \<open>The handler of CallToolRequestSchema\<close>

subsection \<open>vector_add\<close>

definition vector_add_catch ::
  "'s env \<Rightarrow> string \<Rightarrow> row list \<Rightarrow> js_error \<Rightarrow> event list \<Rightarrow> 's \<Rightarrow> (response, 's) outcome" where
  \<comment> \<open>the \<^verbatim>\<open>catch\<close> of the inner \<^verbatim>\<open>try\<close>, entered with the events so far\<close>
  "vector_add_catch env tname vectors error evs s =
     (if str_includes (message error) ''does not exist'' then
        (case createTable env tname vectors s of
           (Inl e, s1) \<Rightarrow> (Inl e, evs @ [CreateTable tname vectors], s1)
         | (Inr _, s1) \<Rightarrow>
             (Inr \<lparr>content_text = ''Created table '' @ tname @ '' and added ''
                       @ show_nat (length vectors) @ '' vectors'',
                   isError = False\<rparr>,
              evs @ [CreateTable tname vectors], s1))
      else (Inl error, evs, s))"

definition vector_add :: "'s env \<Rightarrow> (string \<rightharpoonup> json) option \<Rightarrow> 's \<Rightarrow> (response, 's) outcome" where
  "vector_add env args s =
     (case VectorAddArgsSchema args of
        Inl zerr \<Rightarrow>
          (Inl (new_Error (''Invalid arguments for vector_add: '' @ zodErrorToString env zerr)), [], s)
      | Inr (tname, vectors) \<Rightarrow>
          (case openTable env tname s of
             (Inl e, s1) \<Rightarrow> vector_add_catch env tname vectors e [OpenTable tname] s1
           | (Inr _, s1) \<Rightarrow>
               (case add env tname vectors s1 of
                  (Inl e, s2) \<Rightarrow>
                    vector_add_catch env tname vectors e
                      [OpenTable tname, Add tname vectors] s2
                | (Inr _, s2) \<Rightarrow>
                    (Inr \<lparr>content_text = ''Added '' @ show_nat (length vectors)
                              @ '' vectors to table '' @ tname,
                          isError = False\<rparr>,
                     [OpenTable tname, Add tname vectors], s2))))"

subsection \<open>vector_search\<close>

definition resolveSearchVector :: "'s env \<Rightarrow> VectorSearchArgs \<Rightarrow> 's \<Rightarrow> (real list, 's) outcome" where
  \<comment> \<open>\<^verbatim>\<open>if (query_vector) .. else if (query_text) .. else throw ..\<close>; an array is always truthy\<close>
  "resolveSearchVector env a s =
     (case query_vector a of
        Some v \<Rightarrow> (Inr v, [], s)
      | None \<Rightarrow>
          if truthy (query_text a) then
            (let txt = the (query_text a);
                 announce = ConsoleError (''Generating embedding for text: '' @ [CHR 0x22] @ txt
                                            @ [CHR 0x22])
             in case generateEmbedding env txt s of
                  (Inl e, evs, s1) \<Rightarrow> (Inl e, announce # evs, s1)
                | (Inr searchVector, evs, s1) \<Rightarrow>
                    (Inr searchVector,
                     announce # evs @ [ConsoleError (''Generated embedding with dimension: ''
                                                       @ show_nat (length searchVector))],
                     s1))
          else (Inl (new_Error ''Either query_vector or query_text must be provided''), [], s))"

definition isVectorField :: "field \<Rightarrow> bool" where
  \<comment> \<open>the predicate of \<^verbatim>\<open>schema.fields.find\<close>\<close>
  "isVectorField f = (typeId f = 16 \<and> listSize f > 10)"

definition processedResults :: "bool \<Rightarrow> string \<Rightarrow> row list \<Rightarrow> row list" where
  \<comment> \<open>a copy of each record without the vector column, unless the vectors are asked for\<close>
  "processedResults with_vecs vectorColumnName originalResults =
     (if \<not> with_vecs then map (\<lambda>item. item(vectorColumnName := None)) originalResults
      else originalResults)"

definition dimensionWarning :: "real list \<Rightarrow> nat \<Rightarrow> event list" where
  "dimensionWarning searchVector vectorDimension =
     (if length searchVector \<noteq> vectorDimension then
        [ConsoleError (''Warning: Query vector dimension ('' @ show_nat (length searchVector)
                         @ '') doesn't match table vector dimension (''
                         @ show_nat vectorDimension @ '')'')]
      else [])"

definition buildQuery :: "VectorSearchArgs \<Rightarrow> real list \<Rightarrow> query" where
  \<comment> \<open>the defaults of the destructuring, and \<^verbatim>\<open>where\<close> only when it is a non-empty string\<close>
  "buildQuery a searchVector =
     \<lparr>q_vector = searchVector,
      q_distanceType = (case distance_type a of None \<Rightarrow> ''cosine'' | Some d \<Rightarrow> d),
      q_limit = (case limit a of None \<Rightarrow> 10 | Some l \<Rightarrow> l),
      q_where = (if truthy (where_filter a) then where_filter a else None)\<rparr>"

definition searchWithVector ::
  "'s env \<Rightarrow> VectorSearchArgs \<Rightarrow> real list \<Rightarrow> event list \<Rightarrow> 's \<Rightarrow> (response, 's) outcome" where
  \<comment> \<open>from \<^verbatim>\<open>table.schema()\<close> to the response, entered with the events so far\<close>
  "searchWithVector env a searchVector evs s =
     (case schema env (table_name a) s of
        (Inl e, s1) \<Rightarrow> (Inl e, evs @ [Schema (table_name a)], s1)
      | (Inr schema_fields, s1) \<Rightarrow>
          (case find isVectorField schema_fields of
             None \<Rightarrow>
               (Inl (new_Error ''No vector column found in the table''),
                evs @ [Schema (table_name a)], s1)
           | Some vectorField \<Rightarrow>
               (let evs1 = evs @ [Schema (table_name a)]
                             @ dimensionWarning searchVector (listSize vectorField)
                             @ [ToArray (table_name a) (buildQuery a searchVector)]
                in case toArray env (table_name a) (buildQuery a searchVector) s1 of
                     (Inl e, s2) \<Rightarrow> (Inl e, evs1, s2)
                   | (Inr originalResults, s2) \<Rightarrow>
                       (Inr \<lparr>content_text =
                               JSON_stringify env
                                 (JArr (map JObj
                                    (processedResults (with_vectors a = Some True)
                                       (field_name vectorField) originalResults))),
                             isError = False\<rparr>,
                        evs1, s2))))"

definition vector_search_try :: "'s env \<Rightarrow> VectorSearchArgs \<Rightarrow> 's \<Rightarrow> (response, 's) outcome" where
  \<comment> \<open>the body of the inner \<^verbatim>\<open>try\<close>\<close>
  "vector_search_try env a s =
     (case openTable env (table_name a) s of
        (Inl e, s1) \<Rightarrow> (Inl e, [OpenTable (table_name a)], s1)
      | (Inr _, s1) \<Rightarrow>
          (case resolveSearchVector env a s1 of
             (Inl e, evs, s2) \<Rightarrow> (Inl e, OpenTable (table_name a) # evs, s2)
           | (Inr searchVector, evs, s2) \<Rightarrow>
               searchWithVector env a searchVector (OpenTable (table_name a) # evs) s2))"

definition vector_search :: "'s env \<Rightarrow> (string \<rightharpoonup> json) option \<Rightarrow> 's \<Rightarrow> (response, 's) outcome" where
  "vector_search env args s =
     (case VectorSearchArgsSchema args of
        Inl zerr \<Rightarrow>
          (Inl (new_Error (''Invalid arguments for vector_search: '' @ zodErrorToString env zerr)),
           [], s)
      | Inr a \<Rightarrow>
          (case vector_search_try env a s of
             (Inl error, evs, s1) \<Rightarrow>
               (Inl (new_Error (''Error searching table '' @ table_name a @ '': '' @ toString error)),
                evs, s1)
           | (Inr r, evs, s1) \<Rightarrow> (Inr r, evs, s1)))"

subsection \<open>list_tables\<close>

definition list_tables :: "'s env \<Rightarrow> 's \<Rightarrow> (response, 's) outcome" where
  "list_tables env s =
     (case tableNames env s of
        (Inl error, s1) \<Rightarrow>
          (Inl (new_Error (''Error listing tables: '' @ toString error)), [TableNames], s1)
      | (Inr tables, s1) \<Rightarrow>
          (Inr \<lparr>content_text = JSON_stringify env (JArr (map JStr tables)), isError = False\<rparr>,
           [TableNames], s1))"

subsection \<open>The dispatch and the top-level catch\<close>

definition CallTool ::
  "'s env \<Rightarrow> string \<Rightarrow> (string \<rightharpoonup> json) option \<Rightarrow> 's \<Rightarrow> response \<times> event list \<times> 's" where
  \<comment> \<open>the request handler: every thrown error becomes a response flagged \<^verbatim>\<open>isError\<close>\<close>
  "CallTool env tool args s =
     (case (if tool = ''vector_add'' then vector_add env args s
            else if tool = ''vector_search'' then vector_search env args s
            else if tool = ''list_tables'' then list_tables env s
            else (Inl (new_Error (''Unknown tool: '' @ tool)), [], s)) of
        (Inl error, evs, s1) \<Rightarrow>
          (\<lparr>content_text = ''Error: '' @ message error, isError = True\<rparr>, evs, s1)
      | (Inr r, evs, s1) \<Rightarrow> (r, evs, s1))"

section \<open>An in-memory store, to run the handler on concrete requests\<close>

text \<open>
  The theorems below hold for every collaborator. To run the handler on a concrete request
  the collaborators are instantiated with a store that keeps its tables in a list, in the
  order of their creation. It reports a missing table with the message of LanceDB,
  \<^verbatim>\<open>Table 'docs' was not found\<close> for a table \<^verbatim>\<open>docs\<close>, infers from the first record the
  fixed-size-list field of the \<^verbatim>\<open>vector\<close> column (type tag 16), and answers a search with
  the first \<^verbatim>\<open>limit\<close> rows: the ranking by distance is the business of the storage engine,
  and the store does not compare the length of the query vector with the column. The
  embedding endpoint answers every prompt with status 200 and the vector
  \<open>embedding_of prompt\<close>.
\<close>

record table =
  t_schema :: "field list"
  t_rows :: "row list"

type_synonym mem = "(string \<times> table) list"

definition notFound :: "string \<Rightarrow> js_error" where
  "notFound n = new_Error (''Table '' @ [CHR 0x27] @ n @ [CHR 0x27] @ '' was not found'')"

definition inferSchema :: "row list \<Rightarrow> field list" where
  "inferSchema rows =
     (case rows of
        [] \<Rightarrow> []
      | r # _ \<Rightarrow>
          (case r ''vector'' of
             Some (JArr xs) \<Rightarrow> [\<lparr>field_name = ''vector'', typeId = 16, listSize = length xs\<rparr>]
           | _ \<Rightarrow> []))"

definition mem_openTable :: "string \<Rightarrow> mem \<Rightarrow> (js_error + unit) \<times> mem" where
  "mem_openTable n s = (case map_of s n of None \<Rightarrow> (Inl (notFound n), s) | Some _ \<Rightarrow> (Inr (), s))"

definition mem_add :: "string \<Rightarrow> row list \<Rightarrow> mem \<Rightarrow> (js_error + unit) \<times> mem" where
  "mem_add n rows s =
     (case map_of s n of
        None \<Rightarrow> (Inl (notFound n), s)
      | Some _ \<Rightarrow>
          (Inr (), map (\<lambda>(m, tb). if m = n then (m, tb\<lparr>t_rows := t_rows tb @ rows\<rparr>) else (m, tb)) s))"

definition mem_createTable :: "string \<Rightarrow> row list \<Rightarrow> mem \<Rightarrow> (js_error + unit) \<times> mem" where
  "mem_createTable n rows s =
     (case map_of s n of
        Some _ \<Rightarrow>
          (Inl (new_Error (''Table '' @ [CHR 0x27] @ n @ [CHR 0x27] @ '' already exists'')), s)
      | None \<Rightarrow> (Inr (), s @ [(n, \<lparr>t_schema = inferSchema rows, t_rows = rows\<rparr>)]))"

definition mem_schema :: "string \<Rightarrow> mem \<Rightarrow> (js_error + field list) \<times> mem" where
  "mem_schema n s =
     (case map_of s n of None \<Rightarrow> (Inl (notFound n), s) | Some tb \<Rightarrow> (Inr (t_schema tb), s))"

definition mem_toArray :: "string \<Rightarrow> query \<Rightarrow> mem \<Rightarrow> (js_error + row list) \<times> mem" where
  "mem_toArray n q s =
     (case map_of s n of
        None \<Rightarrow> (Inl (notFound n), s)
      | Some tb \<Rightarrow> (Inr (take (nat \<lfloor>q_limit q\<rfloor>) (t_rows tb)), s))"

definition mem_tableNames :: "mem \<Rightarrow> (js_error + string list) \<times> mem" where
  "mem_tableNames s = (Inr (map fst s), s)"

definition mem_fetch ::
  "(string \<Rightarrow> real list) \<Rightarrow> string \<Rightarrow> string \<Rightarrow> string \<Rightarrow> mem \<Rightarrow> (js_error + http_response) \<times> mem" where
  "mem_fetch embedding_of url model prompt s =
     (Inr \<lparr>ok = True, status = 200, statusText = ''OK'', body_json = Inr (embedding_of prompt)\<rparr>, s)"

definition mem_env :: "(string \<Rightarrow> real list) \<Rightarrow> mem env" where
  "mem_env embedding_of =
     \<lparr>openTable = mem_openTable, add = mem_add, createTable = mem_createTable,
      schema = mem_schema, toArray = mem_toArray, tableNames = mem_tableNames,
      fetch = mem_fetch embedding_of,
      JSON_stringify = (\<lambda>v. ''[..]''),
      zodErrorToString = (\<lambda>is. ''ZodError''),
      ollamaEndpoint = ''http://localhost:11434/api/embeddings'',
      ollamaModel = ''nomic-embed-text:latest''\<rparr>"

text \<open>The request of the specification's example, and a 12-dimensional table to search.\<close>

definition docs_record :: row where
  "docs_record = [''vector'' \<mapsto> JArr [JNum (1/10), JNum (2/10)], ''title'' \<mapsto> JStr ''a'']"

definition docs_args :: "(string \<rightharpoonup> json) option" where
  "docs_args = Some [''table_name'' \<mapsto> JStr ''docs'', ''vectors'' \<mapsto> JArr [JObj docs_record]]"

definition zeros12 :: "real list" where
  "zeros12 = [0, 0, 0, 0, 0, 0, 0, 0, 0, 0, 0, 0]"

definition wide_record :: row where
  "wide_record = [''vector'' \<mapsto> JArr (map JNum zeros12), ''title'' \<mapsto> JStr ''w'']"

definition wide_store :: mem where
  "wide_store =
     [(''wide'', \<lparr>t_schema = [\<lparr>field_name = ''vector'', typeId = 16, listSize = 12\<rparr>],
                  t_rows = [wide_record]\<rparr>)]"

definition zero_embedding :: "string \<Rightarrow> real list" where
  "zero_embedding prompt = zeros12"

definition docs_store :: mem where
  "docs_store =
     [(''docs'', \<lparr>t_schema = [\<lparr>field_name = ''vector'', typeId = 16, listSize = 2\<rparr>],
                  t_rows = [docs_record]\<rparr>)]"

definition empty_batch :: "string \<rightharpoonup> json" where
  "empty_batch = [''table_name'' \<mapsto> JStr ''docs'', ''vectors'' \<mapsto> JArr []]"








text \<open>Reading the events: the calls of the embedding endpoint, and the vectors searched for.\<close>

definition supplied :: "(string \<rightharpoonup> json) option \<Rightarrow> string \<Rightarrow> bool" where
  \<comment> \<open>the arguments of the call have the key\<close>
  "supplied args k = (case args of None \<Rightarrow> False | Some data \<Rightarrow> data k \<noteq> None)"

fun isFetch :: "event \<Rightarrow> bool" where
  "isFetch (Fetch url model prompt) = True"
| "isFetch _ = False"

definition embeddingCalls :: "event list \<Rightarrow> event list" where
  "embeddingCalls evs = filter isFetch evs"

fun searchedVector :: "event \<Rightarrow> real list list" where
  "searchedVector (ToArray t q) = [q_vector q]"
| "searchedVector _ = []"

definition searchedVectors :: "event list \<Rightarrow> real list list" where
  "searchedVectors evs = concat (map searchedVector evs)"

text \<open>Requests to search with.\<close>

definition no_query_args :: "(string \<rightharpoonup> json) option" where
  "no_query_args = Some [''table_name'' \<mapsto> JStr ''docs'']"

definition both_args :: "(string \<rightharpoonup> json) option" where
  "both_args =
     Some [''table_name'' \<mapsto> JStr ''wide'', ''query_vector'' \<mapsto> JArr (map JNum zeros12),
           ''query_text'' \<mapsto> JStr ''hello'']"

definition both_parsed :: VectorSearchArgs where
  "both_parsed =
     \<lparr>table_name = ''wide'', query_vector = Some zeros12, query_text = Some ''hello'',
      limit = None, distance_type = None, where_filter = None, with_vectors = None\<rparr>"

definition text_args :: "(string \<rightharpoonup> json) option" where
  "text_args = Some [''table_name'' \<mapsto> JStr ''wide'', ''query_text'' \<mapsto> JStr ''hello'']"

definition text_parsed :: VectorSearchArgs where
  "text_parsed =
     \<lparr>table_name = ''wide'', query_vector = None, query_text = Some ''hello'',
      limit = None, distance_type = None, where_filter = None, with_vectors = None\<rparr>"

definition short_args :: "string \<Rightarrow> (string \<rightharpoonup> json) option" where
  \<comment> \<open>the search of the specification's example, in the table of the given name\<close>
  "short_args t =
     Some [''table_name'' \<mapsto> JStr t, ''query_vector'' \<mapsto> JArr [JNum (1/10), JNum (2/10)],
           ''limit'' \<mapsto> JNum 1]"

definition short_parsed :: "string \<Rightarrow> VectorSearchArgs" where
  "short_parsed t =
     \<lparr>table_name = t, query_vector = Some [1/10, 2/10], query_text = None,
      limit = Some 1, distance_type = None, where_filter = None, with_vectors = None\<rparr>"

definition keep_args :: "(string \<rightharpoonup> json) option" where
  \<comment> \<open>a search that asks for the vectors\<close>
  "keep_args =
     Some [''table_name'' \<mapsto> JStr ''wide'', ''query_vector'' \<mapsto> JArr (map JNum zeros12),
           ''with_vectors'' \<mapsto> JBool True]"

definition keep_parsed :: VectorSearchArgs where
  "keep_parsed =
     \<lparr>table_name = ''wide'', query_vector = Some zeros12, query_text = None,
      limit = None, distance_type = None, where_filter = None, with_vectors = Some True\<rparr>"

definition default_query :: "real list \<Rightarrow> query" where
  \<comment> \<open>the query of a call that leaves the optional arguments out\<close>
  "default_query v = \<lparr>q_vector = v, q_distanceType = ''cosine'', q_limit = 10, q_where = None\<rparr>"

definition docs_text_args :: "(string \<rightharpoonup> json) option" where
  \<comment> \<open>a search by text in the 2-dimensional table of the example\<close>
  "docs_text_args = Some [''table_name'' \<mapsto> JStr ''docs'', ''query_text'' \<mapsto> JStr ''hello'']"

definition docs_text_parsed :: VectorSearchArgs where
  "docs_text_parsed =
     \<lparr>table_name = ''docs'', query_vector = None, query_text = Some ''hello'',
      limit = None, distance_type = None, where_filter = None, with_vectors = None\<rparr>"

section \<open>Facts about strings and the validators\<close>

lemma str_includes_sublist: "str_includes s sub = sublist sub s"
  by (induction s) (auto simp: sublist_Cons_right)

lemma str_includes_append: "str_includes (pre @ sub @ post) sub"
  by (simp add: str_includes_sublist)



lemma z_string_Inr: "z_string p v = Inr s \<longleftrightarrow> v = Some (JStr s)"
  by (auto simp: z_string_def split: option.splits json.splits)

lemma z_number_Inr: "z_number p v = Inr n \<longleftrightarrow> v = Some (JNum n)"
  by (auto simp: z_number_def split: option.splits json.splits)

lemma z_boolean_Inr: "z_boolean p v = Inr b \<longleftrightarrow> v = Some (JBool b)"
  by (auto simp: z_boolean_def split: option.splits json.splits)

lemma z_enum_Inr: "z_enum opts p v = Inr d \<longleftrightarrow> v = Some (JStr d) \<and> d \<in> set opts"
  by (auto simp: z_enum_def split: option.splits json.splits)

lemma z_items_Cons_Inr:
  "z_items elem p i (x # xs) = Inr ys \<longleftrightarrow>
     (\<exists>y ys'. ys = y # ys' \<and> elem (p @ [Index i]) (Some x) = Inr y
        \<and> z_items elem p (Suc i) xs = Inr ys')"
  by (auto split: sum.splits)

lemma z_items_number_Inr: "z_items z_number p i xs = Inr ns \<longleftrightarrow> xs = map JNum ns"
proof (induction xs arbitrary: i ns)
  case Nil
  then show ?case by auto
next
  case (Cons x xs)
  show ?case
    unfolding z_items_Cons_Inr Cons.IH z_number_Inr by (cases ns) auto
qed

lemma z_array_number_Inr: "z_array z_number p v = Inr ns \<longleftrightarrow> v = Some (JArr (map JNum ns))"
  by (auto simp: z_array_def z_items_number_Inr split: option.splits json.splits)

lemma z_vector_item_Inr:
  "z_vector_item p v = Inr r \<longleftrightarrow>
     v = Some (JObj r) \<and> (\<exists>ns. r ''vector'' = Some (JArr (map JNum ns)))"
proof
  assume "z_vector_item p v = Inr r"
  then obtain item ns where v: "v = Some (JObj item)"
    and ns: "z_array z_number (p @ [Key ''vector'']) (item ''vector'') = Inr ns"
    and r: "r = item(''vector'' \<mapsto> JArr (map JNum ns))"
    by (auto simp: z_vector_item_def split: option.splits json.splits sum.splits)
  from ns have "item ''vector'' = Some (JArr (map JNum ns))"
    by (simp add: z_array_number_Inr)
  with r have "r = item" by (simp add: map_upd_triv)
  with v \<open>item ''vector'' = Some (JArr (map JNum ns))\<close>
  show "v = Some (JObj r) \<and> (\<exists>ns. r ''vector'' = Some (JArr (map JNum ns)))" by auto
next
  assume "v = Some (JObj r) \<and> (\<exists>ns. r ''vector'' = Some (JArr (map JNum ns)))"
  then obtain ns where v: "v = Some (JObj r)" and ns: "r ''vector'' = Some (JArr (map JNum ns))"
    by auto
  have "z_array z_number (p @ [Key ''vector'']) (r ''vector'') = Inr ns"
    using ns by (simp add: z_array_number_Inr)
  then show "z_vector_item p v = Inr r"
    using v ns by (simp add: z_vector_item_def map_upd_triv)
qed

lemma z_items_vector_item_Inr:
  "z_items z_vector_item p i xs = Inr rows \<longleftrightarrow>
     xs = map JObj rows \<and> (\<forall>r \<in> set rows. \<exists>ns. r ''vector'' = Some (JArr (map JNum ns)))"
proof (induction xs arbitrary: i rows)
  case Nil
  then show ?case by auto
next
  case (Cons x xs)
  show ?case
    unfolding z_items_Cons_Inr Cons.IH z_vector_item_Inr by (cases rows) auto
qed

lemma VectorAddArgsSchema_Inr:
  "VectorAddArgsSchema args = Inr (t, rows) \<longleftrightarrow>
     (\<exists>data. args = Some data \<and> data ''table_name'' = Some (JStr t)
        \<and> data ''vectors'' = Some (JArr (map JObj rows))
        \<and> (\<forall>r \<in> set rows. \<exists>ns. r ''vector'' = Some (JArr (map JNum ns))))"
proof (cases args)
  case None
  then show ?thesis by (simp add: VectorAddArgsSchema_def)
next
  case (Some data)
  have arr: "z_array z_vector_item [Key ''vectors''] (data ''vectors'') = Inr rows \<longleftrightarrow>
      data ''vectors'' = Some (JArr (map JObj rows))
      \<and> (\<forall>r \<in> set rows. \<exists>ns. r ''vector'' = Some (JArr (map JNum ns)))"
    by (auto simp: z_array_def z_items_vector_item_Inr split: option.splits json.splits)
  have "VectorAddArgsSchema args = Inr (t, rows) \<longleftrightarrow>
      z_string [Key ''table_name''] (data ''table_name'') = Inr t
      \<and> z_array z_vector_item [Key ''vectors''] (data ''vectors'') = Inr rows"
    using Some by (auto simp: VectorAddArgsSchema_def split: sum.splits)
  then show ?thesis
    unfolding arr z_string_Inr using Some by auto
qed

lemma z_optional_Inr:
  "z_optional inner p v = Inr x \<longleftrightarrow>
     (v = None \<and> x = None) \<or> (\<exists>y. v \<noteq> None \<and> x = Some y \<and> inner p v = Inr y)"
  by (cases v) (auto simp: z_optional_def split: sum.splits)

lemma z_optional_string_Inr: "z_optional z_string p v = Inr x \<longleftrightarrow> v = map_option JStr x"
  unfolding z_optional_Inr z_string_Inr by (cases x) auto

lemma z_optional_number_Inr: "z_optional z_number p v = Inr x \<longleftrightarrow> v = map_option JNum x"
  unfolding z_optional_Inr z_number_Inr by (cases x) auto

lemma z_optional_boolean_Inr: "z_optional z_boolean p v = Inr x \<longleftrightarrow> v = map_option JBool x"
  unfolding z_optional_Inr z_boolean_Inr by (cases x) auto

lemma z_optional_vector_Inr:
  "z_optional (z_array z_number) p v = Inr x \<longleftrightarrow> v = map_option (\<lambda>ns. JArr (map JNum ns)) x"
  unfolding z_optional_Inr z_array_number_Inr by (cases x) auto

lemma z_optional_enum_Inr:
  "z_optional (z_enum opts) p v = Inr x \<longleftrightarrow>
     v = map_option JStr x \<and> (case x of None \<Rightarrow> True | Some d \<Rightarrow> d \<in> set opts)"
  unfolding z_optional_Inr z_enum_Inr by (cases x) auto

lemma VectorSearchArgsObject_Inr:
  "VectorSearchArgsObject args = Inr a \<longleftrightarrow>
     (\<exists>data. args = Some data
        \<and> data ''table_name'' = Some (JStr (table_name a))
        \<and> data ''query_vector'' = map_option (\<lambda>ns. JArr (map JNum ns)) (query_vector a)
        \<and> data ''query_text'' = map_option JStr (query_text a)
        \<and> data ''limit'' = map_option JNum (limit a)
        \<and> data ''distance_type'' = map_option JStr (distance_type a)
        \<and> (case distance_type a of None \<Rightarrow> True | Some d \<Rightarrow> d \<in> set [''l2'', ''cosine'', ''dot''])
        \<and> data ''where'' = map_option JStr (where_filter a)
        \<and> data ''with_vectors'' = map_option JBool (with_vectors a))"
proof (cases args)
  case None
  then show ?thesis by (simp add: VectorSearchArgsObject_def)
next
  case (Some data)
  have "VectorSearchArgsObject args = Inr a \<longleftrightarrow>
      z_string [Key ''table_name''] (data ''table_name'') = Inr (table_name a)
      \<and> z_optional (z_array z_number) [Key ''query_vector''] (data ''query_vector'') = Inr (query_vector a)
      \<and> z_optional z_string [Key ''query_text''] (data ''query_text'') = Inr (query_text a)
      \<and> z_optional z_number [Key ''limit''] (data ''limit'') = Inr (limit a)
      \<and> z_optional (z_enum [''l2'', ''cosine'', ''dot'']) [Key ''distance_type'']
           (data ''distance_type'') = Inr (distance_type a)
      \<and> z_optional z_string [Key ''where''] (data ''where'') = Inr (where_filter a)
      \<and> z_optional z_boolean [Key ''with_vectors''] (data ''with_vectors'') = Inr (with_vectors a)"
    using Some by (cases a) (auto simp: VectorSearchArgsObject_def split: sum.splits)
  then show ?thesis
    unfolding z_string_Inr z_optional_vector_Inr z_optional_string_Inr z_optional_number_Inr
      z_optional_enum_Inr z_optional_boolean_Inr
    using Some by auto
qed

lemma VectorSearchArgsSchema_Inr:
  "VectorSearchArgsSchema args = Inr a \<longleftrightarrow>
     VectorSearchArgsObject args = Inr a \<and> (query_vector a \<noteq> None \<or> query_text a \<noteq> None)"
  by (auto simp: VectorSearchArgsSchema_def split: sum.splits if_splits)

lemma supplied_parsed:
  assumes "VectorSearchArgsObject args = Inr a"
  shows "supplied args ''query_vector'' \<longleftrightarrow> query_vector a \<noteq> None"
    and "supplied args ''query_text'' \<longleftrightarrow> query_text a \<noteq> None"
  using assms unfolding VectorSearchArgsObject_Inr supplied_def by auto

lemma not_supplied_rejected:
  assumes "\<not> supplied args ''query_vector''" and "\<not> supplied args ''query_text''"
  shows "\<exists>zerr. VectorSearchArgsSchema args = Inl zerr"
proof (cases "VectorSearchArgsObject args")
  case (Inl zerr)
  then show ?thesis by (simp add: VectorSearchArgsSchema_def)
next
  case (Inr a)
  with assms have "query_vector a = None" and "query_text a = None"
    by (simp_all add: supplied_parsed)
  with Inr show ?thesis by (simp add: VectorSearchArgsSchema_def)
qed

section \<open>How the handler runs\<close>

subsection \<open>vector_add\<close>


lemma CallTool_add_appended:
  assumes "VectorAddArgsSchema args = Inr (t, vs)"
    and "openTable env t s = (Inr u, s1)"
    and "add env t vs s1 = (Inr u', s2)"
  shows "CallTool env ''vector_add'' args s =
    (\<lparr>content_text = ''Added '' @ show_nat (length vs) @ '' vectors to table '' @ t,
      isError = False\<rparr>,
     [OpenTable t, Add t vs], s2)"
  using assms by (simp add: CallTool_def vector_add_def)

lemma CallTool_add_open_failed:
  assumes "VectorAddArgsSchema args = Inr (t, vs)"
    and "openTable env t s = (Inl e, s1)"
    and "\<not> str_includes (message e) ''does not exist''"
  shows "CallTool env ''vector_add'' args s =
    (\<lparr>content_text = ''Error: '' @ message e, isError = True\<rparr>, [OpenTable t], s1)"
  using assms by (simp add: CallTool_def vector_add_def vector_add_catch_def)





subsection \<open>vector_search\<close>

lemma CallTool_search:
  assumes "VectorSearchArgsSchema args = Inr a"
  shows "CallTool env ''vector_search'' args s =
    (case vector_search_try env a s of
       (Inl e, evs, s1) \<Rightarrow>
         (\<lparr>content_text = ''Error: Error searching table '' @ table_name a @ '': '' @ toString e,
           isError = True\<rparr>, evs, s1)
     | (Inr r, evs, s1) \<Rightarrow> (r, evs, s1))"
  using assms
  by (simp add: CallTool_def vector_search_def new_Error_def split: prod.splits sum.splits)


lemma CallTool_search_events:
  assumes "VectorSearchArgsSchema args = Inr a"
  shows "fst (snd (CallTool env ''vector_search'' args s)) = fst (snd (vector_search_try env a s))"
  by (simp add: CallTool_search [OF assms] split: prod.splits sum.splits)


lemma try_resolve_failed:
  assumes "openTable env (table_name a) s = (Inr u, s1)"
    and "resolveSearchVector env a s1 = (Inl e, evs, s2)"
  shows "vector_search_try env a s = (Inl e, OpenTable (table_name a) # evs, s2)"
  using assms by (simp add: vector_search_try_def)

lemma try_resolved:
  assumes "openTable env (table_name a) s = (Inr u, s1)"
    and "resolveSearchVector env a s1 = (Inr v, evs, s2)"
  shows "vector_search_try env a s = searchWithVector env a v (OpenTable (table_name a) # evs) s2"
  using assms by (simp add: vector_search_try_def)

lemma generateEmbedding_Inr:
  "generateEmbedding env txt s = (Inr v, gevs, s2) \<longleftrightarrow>
     (\<exists>r. fetch env (ollamaEndpoint env) (ollamaModel env) txt s = (Inr r, s2) \<and> ok r
        \<and> body_json r = Inr v)
     \<and> gevs = [Fetch (ollamaEndpoint env) (ollamaModel env) txt]"
  by (auto simp: generateEmbedding_def Let_def split: prod.splits sum.splits if_splits)

lemma generateEmbedding_Inl:
  assumes "generateEmbedding env txt s = (Inl e, gevs, s2)"
  shows "gevs = [Fetch (ollamaEndpoint env) (ollamaModel env) txt,
                 ConsoleError (''Error generating embedding: '' @ message e)]"
  using assms
  by (auto simp: generateEmbedding_def Let_def split: prod.splits sum.splits if_splits)

lemma resolve_query_vector:
  "query_vector a = Some v \<Longrightarrow> resolveSearchVector env a s = (Inr v, [], s)"
  by (simp add: resolveSearchVector_def)

lemma resolve_query_text:
  assumes "query_vector a = None" and "query_text a = Some txt" and "txt \<noteq> []"
  shows "resolveSearchVector env a s =
    (case generateEmbedding env txt s of
       (Inl e, gevs, s1) \<Rightarrow>
         (Inl e,
          ConsoleError (''Generating embedding for text: '' @ [CHR 0x22] @ txt @ [CHR 0x22]) # gevs,
          s1)
     | (Inr v, gevs, s1) \<Rightarrow>
         (Inr v,
          ConsoleError (''Generating embedding for text: '' @ [CHR 0x22] @ txt @ [CHR 0x22]) # gevs
            @ [ConsoleError (''Generated embedding with dimension: '' @ show_nat (length v))],
          s1))"
  using assms
  by (simp add: resolveSearchVector_def truthy_def Let_def split: prod.splits sum.splits)

lemma no_vector_field: "find isVectorField flds = None \<longleftrightarrow> (\<forall>f \<in> set flds. \<not> (typeId f = 16 \<and> listSize f > 10))"
  by (auto simp: find_None_iff isVectorField_def)


lemma searchWithVector_no_column:
  assumes "schema env (table_name a) s = (Inr flds, s1)"
    and "find isVectorField flds = None"
  shows "searchWithVector env a v evs s =
    (Inl (new_Error ''No vector column found in the table''), evs @ [Schema (table_name a)], s1)"
  using assms by (simp add: searchWithVector_def)


lemma searchWithVector_found:
  assumes "schema env (table_name a) s = (Inr flds, s1)"
    and "find isVectorField flds = Some f"
    and "toArray env (table_name a) (buildQuery a v) s1 = (Inr rows, s2)"
  shows "searchWithVector env a v evs s =
    (Inr \<lparr>content_text =
            JSON_stringify env
              (JArr (map JObj (processedResults (with_vectors a = Some True) (field_name f) rows))),
          isError = False\<rparr>,
     evs @ [Schema (table_name a)] @ dimensionWarning v (listSize f)
       @ [ToArray (table_name a) (buildQuery a v)], s2)"
  using assms by (simp add: searchWithVector_def)

lemma searchWithVector_events:
  "fst (snd (searchWithVector env a v evs s)) =
     evs @ Schema (table_name a) #
       (case schema env (table_name a) s of
          (Inl e, s1) \<Rightarrow> []
        | (Inr flds, s1) \<Rightarrow>
            (case find isVectorField flds of
               None \<Rightarrow> []
             | Some f \<Rightarrow> dimensionWarning v (listSize f) @ [ToArray (table_name a) (buildQuery a v)]))"
  by (simp add: searchWithVector_def Let_def split: prod.splits sum.splits option.splits)

lemma CallTool_search_found:
  assumes "VectorSearchArgsSchema args = Inr a"
    and "openTable env (table_name a) s = (Inr (), s1)"
    and "resolveSearchVector env a s1 = (Inr v, evs, s2)"
    and "schema env (table_name a) s2 = (Inr flds, s3)"
    and "find isVectorField flds = Some f"
    and "toArray env (table_name a) (buildQuery a v) s3 = (Inr rows, s4)"
  shows "CallTool env ''vector_search'' args s =
    (\<lparr>content_text =
        JSON_stringify env
          (JArr (map JObj (processedResults (with_vectors a = Some True) (field_name f) rows))),
      isError = False\<rparr>,
     OpenTable (table_name a) # evs @ [Schema (table_name a)] @ dimensionWarning v (listSize f)
       @ [ToArray (table_name a) (buildQuery a v)], s4)"
  by (simp add: CallTool_search [OF assms(1)] try_resolved [OF assms(2,3)]
      searchWithVector_found [OF assms(4,5,6)])


lemma processedResults_stripped:
  assumes "i < length rows"
  shows "(processedResults False c rows ! i) c = None"
    and "k \<noteq> c \<Longrightarrow> (processedResults False c rows ! i) k = (rows ! i) k"
  using assms by (simp_all add: processedResults_def)

lemma buildQuery_vector: "q_vector (buildQuery a v) = v"
  by (simp add: buildQuery_def)

lemma embeddingCalls_simps:
  "embeddingCalls [] = []"
  "embeddingCalls (e # evs) = (if isFetch e then e # embeddingCalls evs else embeddingCalls evs)"
  "embeddingCalls (evs @ evs') = embeddingCalls evs @ embeddingCalls evs'"
  "embeddingCalls (dimensionWarning v d) = []"
  by (simp_all add: embeddingCalls_def dimensionWarning_def)

lemma searchedVectors_simps:
  "searchedVectors [] = []"
  "searchedVectors (e # evs) = searchedVector e @ searchedVectors evs"
  "searchedVectors (evs @ evs') = searchedVectors evs @ searchedVectors evs'"
  "searchedVectors (dimensionWarning v d) = []"
  by (simp_all add: searchedVectors_def dimensionWarning_def)

subsection \<open>list_tables\<close>


section \<open>The in-memory store and the concrete requests\<close>

lemma docs_args_valid: "VectorAddArgsSchema docs_args = Inr (''docs'', [docs_record])"
proof -
  have "docs_record ''vector'' = Some (JArr (map JNum [1/10, 2/10]))"
    by (simp add: docs_record_def)
  then have "\<exists>ns. docs_record ''vector'' = Some (JArr (map JNum ns))"
    by blast
  then show ?thesis
    by (simp add: VectorAddArgsSchema_Inr docs_args_def)
qed

lemma both_args_valid: "VectorSearchArgsSchema both_args = Inr both_parsed"
  by (simp add: VectorSearchArgsSchema_Inr VectorSearchArgsObject_Inr both_args_def both_parsed_def)

lemma text_args_valid: "VectorSearchArgsSchema text_args = Inr text_parsed"
  by (simp add: VectorSearchArgsSchema_Inr VectorSearchArgsObject_Inr text_args_def text_parsed_def)

lemma short_args_valid: "VectorSearchArgsSchema (short_args t) = Inr (short_parsed t)"
  by (simp add: VectorSearchArgsSchema_Inr VectorSearchArgsObject_Inr short_args_def short_parsed_def)

lemma keep_args_valid: "VectorSearchArgsSchema keep_args = Inr keep_parsed"
  by (simp add: VectorSearchArgsSchema_Inr VectorSearchArgsObject_Inr keep_args_def keep_parsed_def)

lemma short_query: "buildQuery (short_parsed t) v =
    \<lparr>q_vector = v, q_distanceType = ''cosine'', q_limit = 1, q_where = None\<rparr>"
  by (simp add: buildQuery_def short_parsed_def truthy_def)

lemma text_query: "buildQuery text_parsed v = default_query v"
  by (simp add: buildQuery_def text_parsed_def default_query_def truthy_def)

lemma both_query: "buildQuery both_parsed v = default_query v"
  by (simp add: buildQuery_def both_parsed_def default_query_def truthy_def)

lemma mem_open_missing: "map_of s n = None \<Longrightarrow> openTable (mem_env f) n s = (Inl (notFound n), s)"
  by (simp add: mem_env_def mem_openTable_def)

lemma mem_open_present: "map_of s n = Some tb \<Longrightarrow> openTable (mem_env f) n s = (Inr (), s)"
  by (simp add: mem_env_def mem_openTable_def)

lemma mem_add_nothing: "map_of s n = Some tb \<Longrightarrow> add (mem_env f) n [] s = (Inr (), s)"
proof -
  have "map (\<lambda>(m, tb). if m = n then (m, tb\<lparr>t_rows := t_rows tb @ []\<rparr>) else (m, tb)) s = s"
    by (induction s) auto
  then show "map_of s n = Some tb \<Longrightarrow> add (mem_env f) n [] s = (Inr (), s)"
    by (simp add: mem_env_def mem_add_def)
qed

lemma docs_store_has_docs:
  "map_of docs_store ''docs'' =
     Some \<lparr>t_schema = [\<lparr>field_name = ''vector'', typeId = 16, listSize = 2\<rparr>], t_rows = [docs_record]\<rparr>"
  by (simp add: docs_store_def)

lemma wide_store_has_wide:
  "map_of wide_store ''wide'' =
     Some \<lparr>t_schema = [\<lparr>field_name = ''vector'', typeId = 16, listSize = 12\<rparr>],
           t_rows = [wide_record]\<rparr>"
  by (simp add: wide_store_def)

lemma wide_vector_field:
  "find isVectorField [\<lparr>field_name = ''vector'', typeId = 16, listSize = 12\<rparr>] =
     Some \<lparr>field_name = ''vector'', typeId = 16, listSize = 12\<rparr>"
  by (simp add: isVectorField_def)

lemma mem_wide_open: "openTable (mem_env embedding_of) ''wide'' wide_store = (Inr (), wide_store)"
  by (simp add: mem_env_def mem_openTable_def wide_store_has_wide)

lemma mem_wide_schema:
  "schema (mem_env embedding_of) ''wide'' wide_store =
     (Inr [\<lparr>field_name = ''vector'', typeId = 16, listSize = 12\<rparr>], wide_store)"
  by (simp add: mem_env_def mem_schema_def wide_store_has_wide)


lemma docs_not_found_message:
  "message (notFound ''docs'') = ''Table 'docs' was not found''"
  "\<not> str_includes (message (notFound ''docs'')) ''does not exist''"
  by (simp_all add: notFound_def new_Error_def)

lemma docs_on_empty_store:
  "CallTool (mem_env embedding_of) ''vector_add'' docs_args [] =
     (\<lparr>content_text = ''Error: Table 'docs' was not found'', isError = True\<rparr>,
      [OpenTable ''docs''], [])"
  using CallTool_add_open_failed [OF docs_args_valid mem_open_missing docs_not_found_message(2),
      of "[]" embedding_of]
  by (simp add: docs_not_found_message)

lemma docs_text_args_valid: "VectorSearchArgsSchema docs_text_args = Inr docs_text_parsed"
  by (simp add: VectorSearchArgsSchema_Inr VectorSearchArgsObject_Inr docs_text_args_def
      docs_text_parsed_def)


section \<open>The claims of the specification\<close>

subsection \<open>C1: vector_add to a table that does not exist\<close>

text \<open>
  C1 (the code falls short of it). The specification, the comments of the handler and the
  description of the tool have a valid \<^verbatim>\<open>vector_add\<close> call that names a missing table
  create the table from the submitted records and answer with success. The handler takes a
  table for missing when the message of the error thrown by \<^verbatim>\<open>openTable\<close> contains
  \<^verbatim>\<open>does not exist\<close>, and the message of the store for a missing table is
  \<^verbatim>\<open>Table 'docs' was not found\<close>: on the empty store the call of the example takes the
  other branch of the catch, the error is thrown on, the response is a failure and no table
  is created. The rest of the claim holds: the records are appended to a table that opens
  (\<open>CallTool_add_appended\<close>), and an error of the open without these words becomes a
  failed response with no table created (\<open>CallTool_add_open_failed\<close>).
\<close>

theorem vector_add_to_missing_table_fails:
  "VectorAddArgsSchema docs_args = Inr (''docs'', [docs_record])
   \<and> openTable (mem_env zero_embedding) ''docs'' [] =
       (Inl (new_Error ''Table 'docs' was not found''), [])
   \<and> CallTool (mem_env zero_embedding) ''vector_add'' docs_args [] =
       (\<lparr>content_text = ''Error: Table 'docs' was not found'', isError = True\<rparr>,
        [OpenTable ''docs''], [])"
proof -
  have "openTable (mem_env zero_embedding) ''docs'' [] =
      (Inl (new_Error ''Table 'docs' was not found''), [])"
    by (simp add: mem_open_missing notFound_def)
  then show ?thesis
    using docs_args_valid docs_on_empty_store [of zero_embedding] by simp
qed

subsection \<open>C2: The vector column in the results of a search\<close>

text \<open>
  C2. The response of a successful search carries the processed results. Unless
  \<^verbatim>\<open>with_vectors\<close> is true, they are the rows of the store in the same order, none of them
  has the vector column, and every other field of every row is as the store returned it;
  with \<^verbatim>\<open>with_vectors\<close> true they are the rows of the store, untouched.
\<close>

theorem search_results_drop_vector_column:
  assumes "VectorSearchArgsSchema args = Inr a"
    and "openTable env (table_name a) s = (Inr (), s1)"
    and "resolveSearchVector env a s1 = (Inr v, evs, s2)"
    and "schema env (table_name a) s2 = (Inr flds, s3)"
    and "find isVectorField flds = Some f"
    and "toArray env (table_name a) (buildQuery a v) s3 = (Inr rows, s4)"
  defines "res \<equiv> processedResults (with_vectors a = Some True) (field_name f) rows"
  shows "fst (CallTool env ''vector_search'' args s) =
      \<lparr>content_text = JSON_stringify env (JArr (map JObj res)), isError = False\<rparr>
    \<and> length res = length rows
    \<and> (with_vectors a \<noteq> Some True \<longrightarrow>
          (\<forall>i < length rows. (res ! i) (field_name f) = None
             \<and> (\<forall>k. k \<noteq> field_name f \<longrightarrow> (res ! i) k = (rows ! i) k)))
    \<and> (with_vectors a = Some True \<longrightarrow> res = rows)"
proof (intro conjI impI allI)
  show "fst (CallTool env ''vector_search'' args s) =
      \<lparr>content_text = JSON_stringify env (JArr (map JObj res)), isError = False\<rparr>"
    unfolding res_def by (simp add: CallTool_search_found [OF assms(1-6)])
next
  show "length res = length rows"
    unfolding res_def by (simp add: processedResults_def)
next
  fix i
  assume "with_vectors a \<noteq> Some True" and "i < length rows"
  then show "(res ! i) (field_name f) = None"
    unfolding res_def by (simp add: processedResults_stripped)
next
  fix i k
  assume "with_vectors a \<noteq> Some True" and "i < length rows" and "k \<noteq> field_name f"
  then show "(res ! i) k = (rows ! i) k"
    unfolding res_def by (simp add: processedResults_stripped)
next
  assume "with_vectors a = Some True"
  then show "res = rows"
    unfolding res_def by (simp add: processedResults_def)
qed

theorem search_results_drop_vector_column_witness:
  "VectorSearchArgsSchema (short_args ''wide'') = Inr (short_parsed ''wide'')
   \<and> with_vectors (short_parsed ''wide'') \<noteq> Some True
   \<and> toArray (mem_env zero_embedding) ''wide''
        \<lparr>q_vector = [1/10, 2/10], q_distanceType = ''cosine'', q_limit = 1, q_where = None\<rparr>
        wide_store = (Inr [wide_record], wide_store)
   \<and> wide_record ''vector'' = Some (JArr (map JNum zeros12))
   \<and> processedResults False ''vector'' [wide_record] = [wide_record(''vector'' := None)]
   \<and> (processedResults False ''vector'' [wide_record] ! 0) ''vector'' = None
   \<and> (processedResults False ''vector'' [wide_record] ! 0) ''title'' = Some (JStr ''w'')
   \<and> VectorSearchArgsSchema keep_args = Inr keep_parsed
   \<and> with_vectors keep_parsed = Some True
   \<and> toArray (mem_env zero_embedding) ''wide'' (default_query zeros12) wide_store
        = (Inr [wide_record], wide_store)
   \<and> processedResults True ''vector'' [wide_record] = [wide_record]"
proof -
  let ?f = "\<lparr>field_name = ''vector'', typeId = 16, listSize = 12\<rparr>"
  have name: "table_name (short_parsed ''wide'') = ''wide''" "table_name keep_parsed = ''wide''"
    by (simp_all add: short_parsed_def keep_parsed_def)
  have wv: "with_vectors (short_parsed ''wide'') \<noteq> Some True" "with_vectors keep_parsed = Some True"
    by (simp_all add: short_parsed_def keep_parsed_def)
  have h2: "openTable (mem_env zero_embedding) (table_name (short_parsed ''wide'')) wide_store
      = (Inr (), wide_store)"
    by (simp add: name mem_env_def mem_openTable_def wide_store_has_wide)
  have h3: "resolveSearchVector (mem_env zero_embedding) (short_parsed ''wide'') wide_store =
       (Inr [1/10, 2/10], [], wide_store)"
    by (simp add: resolve_query_vector short_parsed_def)
  have h4: "schema (mem_env zero_embedding) (table_name (short_parsed ''wide'')) wide_store =
       (Inr [?f], wide_store)"
    by (simp add: name mem_env_def mem_schema_def wide_store_has_wide)
  have h6: "toArray (mem_env zero_embedding) (table_name (short_parsed ''wide''))
        (buildQuery (short_parsed ''wide'') [1/10, 2/10]) wide_store = (Inr [wide_record], wide_store)"
    by (simp add: name short_query mem_env_def mem_toArray_def wide_store_has_wide)
  have k2: "openTable (mem_env zero_embedding) (table_name keep_parsed) wide_store
      = (Inr (), wide_store)"
    by (simp add: name mem_env_def mem_openTable_def wide_store_has_wide)
  have k3: "resolveSearchVector (mem_env zero_embedding) keep_parsed wide_store =
       (Inr zeros12, [], wide_store)"
    by (simp add: resolve_query_vector keep_parsed_def)
  have k4: "schema (mem_env zero_embedding) (table_name keep_parsed) wide_store =
       (Inr [?f], wide_store)"
    by (simp add: name mem_env_def mem_schema_def wide_store_has_wide)
  have kq: "buildQuery keep_parsed zeros12 = default_query zeros12"
    by (simp add: buildQuery_def keep_parsed_def default_query_def truthy_def)
  have k6: "toArray (mem_env zero_embedding) (table_name keep_parsed)
        (buildQuery keep_parsed zeros12) wide_store = (Inr [wide_record], wide_store)"
    by (simp add: name kq default_query_def mem_env_def mem_toArray_def wide_store_has_wide)
  have rec: "wide_record ''vector'' = Some (JArr (map JNum zeros12))"
    by (simp add: wide_record_def)
  have strip: "processedResults False ''vector'' [wide_record] = [wide_record(''vector'' := None)]"
    by (simp add: processedResults_def)
  show ?thesis
    using short_args_valid keep_args_valid wv h6 k6 rec strip
      search_results_drop_vector_column [OF short_args_valid h2 h3 h4 wide_vector_field h6]
      search_results_drop_vector_column [OF keep_args_valid k2 k3 k4 wide_vector_field k6]
    by (simp add: name short_query kq wide_record_def)
qed

subsection \<open>C3: A search without a query\<close>

text \<open>
  C3. A \<^verbatim>\<open>vector_search\<close> call that supplies neither \<^verbatim>\<open>query_vector\<close> nor
  \<^verbatim>\<open>query_text\<close> fails validation; the response is the validation error, no collaborator
  has been called (the list of events is empty) and the state of the store is the one before
  the call.
\<close>

theorem search_without_query_fails_validation:
  assumes "\<not> supplied args ''query_vector''" and "\<not> supplied args ''query_text''"
  shows "\<exists>zerr. VectorSearchArgsSchema args = Inl zerr
           \<and> CallTool env ''vector_search'' args s =
               (\<lparr>content_text = ''Error: Invalid arguments for vector_search: ''
                    @ zodErrorToString env zerr, isError = True\<rparr>, [], s)"
proof -
  from not_supplied_rejected [OF assms] obtain zerr where "VectorSearchArgsSchema args = Inl zerr"
    by blast
  then show ?thesis
    by (simp add: CallTool_def vector_search_def new_Error_def)
qed

theorem search_without_query_fails_validation_witness:
  "\<not> supplied no_query_args ''query_vector'' \<and> \<not> supplied no_query_args ''query_text''
   \<and> CallTool (mem_env zero_embedding) ''vector_search'' no_query_args docs_store =
       (\<lparr>content_text = ''Error: Invalid arguments for vector_search: ZodError'', isError = True\<rparr>,
        [], docs_store)"
proof -
  have h1: "\<not> supplied no_query_args ''query_vector''"
    and h2: "\<not> supplied no_query_args ''query_text''"
    by (simp_all add: supplied_def no_query_args_def)
  from search_without_query_fails_validation [OF h1 h2, of "mem_env zero_embedding" docs_store]
  have "CallTool (mem_env zero_embedding) ''vector_search'' no_query_args docs_store =
       (\<lparr>content_text = ''Error: Invalid arguments for vector_search: ZodError'', isError = True\<rparr>,
        [], docs_store)"
    by (auto simp: mem_env_def)
  with h1 h2 show ?thesis by simp
qed

subsection \<open>C4: A search by text\<close>

text \<open>
  C4 (as amended). A valid search that supplies a non-empty \<^verbatim>\<open>query_text\<close> and no
  \<^verbatim>\<open>query_vector\<close>, on a table that opens, calls the embedding endpoint exactly once, with
  the text as prompt. When the endpoint answers with a vector, no other vector is ever
  searched for; the search is issued, with exactly this vector, when \<^verbatim>\<open>table.schema()\<close>
  returns a field with type tag 16 and list size above 10, and no search is issued when it
  returns no such field or throws.
\<close>

theorem search_by_text_embeds_once:
  assumes "VectorSearchArgsSchema args = Inr a"
    and "query_vector a = None" and "query_text a = Some txt" and "txt \<noteq> []"
    and "openTable env (table_name a) s = (Inr (), s1)"
  defines "evs \<equiv> fst (snd (CallTool env ''vector_search'' args s))"
  shows "embeddingCalls evs = [Fetch (ollamaEndpoint env) (ollamaModel env) txt]
    \<and> (\<forall>r s2 v. fetch env (ollamaEndpoint env) (ollamaModel env) txt s1 = (Inr r, s2) \<and> ok r
            \<and> body_json r = Inr v \<longrightarrow>
          (searchedVectors evs = [v] \<or> searchedVectors evs = [])
          \<and> (\<forall>flds s3. schema env (table_name a) s2 = (Inr flds, s3)
                \<and> find isVectorField flds \<noteq> None \<longrightarrow> searchedVectors evs = [v])
          \<and> (\<forall>flds s3. schema env (table_name a) s2 = (Inr flds, s3)
                \<and> find isVectorField flds = None \<longrightarrow> searchedVectors evs = [])
          \<and> (\<forall>e s3. schema env (table_name a) s2 = (Inl e, s3) \<longrightarrow> searchedVectors evs = []))"
proof -
  let ?call = "Fetch (ollamaEndpoint env) (ollamaModel env) txt"
  obtain g gevs s2 where gen: "generateEmbedding env txt s1 = (g, gevs, s2)"
    by (cases "generateEmbedding env txt s1") blast
  show ?thesis
  proof (cases g)
    case (Inl e)
    with gen have gevs: "gevs = [?call, ConsoleError (''Error generating embedding: '' @ message e)]"
      using generateEmbedding_Inl [of env "txt" s1 e gevs s2] by blast
    have evs: "evs = OpenTable (table_name a)
        # ConsoleError (''Generating embedding for text: '' @ [CHR 0x22] @ txt @ [CHR 0x22]) # gevs"
      unfolding evs_def CallTool_search_events [OF assms(1)]
      using gen Inl
      by (simp add: try_resolve_failed [OF assms(5)] resolve_query_text [OF assms(2-4)])
    have no_answer: "\<not> (\<exists>r. fetch env (ollamaEndpoint env) (ollamaModel env) txt s1 = (Inr r, s2')
        \<and> ok r \<and> body_json r = Inr v)" for s2' v
    proof
      assume "\<exists>r. fetch env (ollamaEndpoint env) (ollamaModel env) txt s1 = (Inr r, s2')
        \<and> ok r \<and> body_json r = Inr v"
      then have "generateEmbedding env txt s1 = (Inr v, [?call], s2')"
        by (simp add: generateEmbedding_Inr)
      with gen Inl show False by simp
    qed
    have "embeddingCalls evs = [?call]"
      by (simp add: evs gevs embeddingCalls_simps)
    with no_answer show ?thesis by blast
  next
    case (Inr w)
    with gen have answer: "\<exists>r. fetch env (ollamaEndpoint env) (ollamaModel env) txt s1 = (Inr r, s2)
        \<and> ok r \<and> body_json r = Inr w"
      and gevs: "gevs = [?call]"
      by (simp_all add: generateEmbedding_Inr)
    have res: "resolveSearchVector env a s1 =
        (Inr w,
         ConsoleError (''Generating embedding for text: '' @ [CHR 0x22] @ txt @ [CHR 0x22]) # gevs
           @ [ConsoleError (''Generated embedding with dimension: '' @ show_nat (length w))],
         s2)"
      using gen Inr by (simp add: resolve_query_text [OF assms(2-4)])
    have evs: "evs = (OpenTable (table_name a)
        # ConsoleError (''Generating embedding for text: '' @ [CHR 0x22] @ txt @ [CHR 0x22]) # gevs
           @ [ConsoleError (''Generated embedding with dimension: '' @ show_nat (length w))])
        @ Schema (table_name a) #
          (case schema env (table_name a) s2 of
             (Inl e, s3) \<Rightarrow> []
           | (Inr flds, s3) \<Rightarrow>
               (case find isVectorField flds of
                  None \<Rightarrow> []
                | Some f \<Rightarrow> dimensionWarning w (listSize f)
                    @ [ToArray (table_name a) (buildQuery a w)]))"
      unfolding evs_def CallTool_search_events [OF assms(1)] try_resolved [OF assms(5) res]
      by (rule searchWithVector_events)
    have calls: "embeddingCalls evs = [?call]"
      by (simp add: evs gevs embeddingCalls_simps split: prod.splits sum.splits option.splits)
    have searched: "searchedVectors evs =
        (case schema env (table_name a) s2 of
           (Inl e, s3) \<Rightarrow> []
         | (Inr flds, s3) \<Rightarrow> (case find isVectorField flds of None \<Rightarrow> [] | Some f \<Rightarrow> [w]))"
      by (simp add: evs gevs searchedVectors_simps buildQuery_vector
          split: prod.splits sum.splits option.splits)
    have same: "s2' = s2 \<and> v = w"
      if "fetch env (ollamaEndpoint env) (ollamaModel env) txt s1 = (Inr r, s2')"
        and "ok r" and "body_json r = Inr v" for r s2' v
      using that answer by auto
    have part: "(searchedVectors evs = [v] \<or> searchedVectors evs = [])
        \<and> (\<forall>flds s3. schema env (table_name a) s2' = (Inr flds, s3)
              \<and> find isVectorField flds \<noteq> None \<longrightarrow> searchedVectors evs = [v])
        \<and> (\<forall>flds s3. schema env (table_name a) s2' = (Inr flds, s3)
              \<and> find isVectorField flds = None \<longrightarrow> searchedVectors evs = [])
        \<and> (\<forall>e s3. schema env (table_name a) s2' = (Inl e, s3) \<longrightarrow> searchedVectors evs = [])"
      if "fetch env (ollamaEndpoint env) (ollamaModel env) txt s1 = (Inr r, s2')"
        and "ok r" and "body_json r = Inr v" for r s2' v
      using same [OF that] searched
      by (auto split: prod.splits sum.splits option.splits)
    from calls part show ?thesis by blast
  qed
qed

theorem search_by_text_embeds_once_witness:
  "VectorSearchArgsSchema text_args = Inr text_parsed
   \<and> query_vector text_parsed = None \<and> query_text text_parsed = Some ''hello'' \<and> ''hello'' \<noteq> []
   \<and> openTable (mem_env zero_embedding) ''wide'' wide_store = (Inr (), wide_store)
   \<and> fetch (mem_env zero_embedding) ''http://localhost:11434/api/embeddings''
        ''nomic-embed-text:latest'' ''hello'' wide_store =
       (Inr \<lparr>ok = True, status = 200, statusText = ''OK'', body_json = Inr zeros12\<rparr>, wide_store)
   \<and> embeddingCalls
        (fst (snd (CallTool (mem_env zero_embedding) ''vector_search'' text_args wide_store))) =
       [Fetch ''http://localhost:11434/api/embeddings'' ''nomic-embed-text:latest'' ''hello'']
   \<and> searchedVectors
        (fst (snd (CallTool (mem_env zero_embedding) ''vector_search'' text_args wide_store))) =
       [zeros12]
   \<and> VectorSearchArgsSchema docs_text_args = Inr docs_text_parsed
   \<and> query_vector docs_text_parsed = None \<and> query_text docs_text_parsed = Some ''hello''
   \<and> openTable (mem_env zero_embedding) ''docs'' docs_store = (Inr (), docs_store)
   \<and> fetch (mem_env zero_embedding) ''http://localhost:11434/api/embeddings''
        ''nomic-embed-text:latest'' ''hello'' docs_store =
       (Inr \<lparr>ok = True, status = 200, statusText = ''OK'', body_json = Inr zeros12\<rparr>, docs_store)
   \<and> schema (mem_env zero_embedding) ''docs'' docs_store =
       (Inr [\<lparr>field_name = ''vector'', typeId = 16, listSize = 2\<rparr>], docs_store)
   \<and> find isVectorField [\<lparr>field_name = ''vector'', typeId = 16, listSize = 2\<rparr>] = None
   \<and> embeddingCalls
        (fst (snd (CallTool (mem_env zero_embedding) ''vector_search'' docs_text_args docs_store))) =
       [Fetch ''http://localhost:11434/api/embeddings'' ''nomic-embed-text:latest'' ''hello'']
   \<and> searchedVectors
        (fst (snd (CallTool (mem_env zero_embedding) ''vector_search'' docs_text_args docs_store))) =
       []"
proof -
  let ?r = "\<lparr>ok = True, status = 200, statusText = ''OK'', body_json = Inr zeros12\<rparr>"
  have name: "table_name text_parsed = ''wide''"
    and h2: "query_vector text_parsed = None"
    and h3: "query_text text_parsed = Some ''hello''"
    by (simp_all add: text_parsed_def)
  have h4: "''hello'' \<noteq> []"
    by simp
  have h5: "openTable (mem_env zero_embedding) (table_name text_parsed) wide_store
      = (Inr (), wide_store)"
    by (simp add: name mem_wide_open)
  have cfg: "ollamaEndpoint (mem_env zero_embedding) = ''http://localhost:11434/api/embeddings''"
    "ollamaModel (mem_env zero_embedding) = ''nomic-embed-text:latest''"
    by (simp_all add: mem_env_def)
  have answer: "fetch (mem_env zero_embedding) ''http://localhost:11434/api/embeddings''
        ''nomic-embed-text:latest'' ''hello'' wide_store = (Inr ?r, wide_store)"
    by (simp add: mem_env_def mem_fetch_def zero_embedding_def)
  have found: "find isVectorField [\<lparr>field_name = ''vector'', typeId = 16, listSize = 12\<rparr>] \<noteq> None"
    by (simp add: isVectorField_def)
  from search_by_text_embeds_once [OF text_args_valid h2 h3 h4 h5]
  have calls: "embeddingCalls
        (fst (snd (CallTool (mem_env zero_embedding) ''vector_search'' text_args wide_store))) =
       [Fetch ''http://localhost:11434/api/embeddings'' ''nomic-embed-text:latest'' ''hello'']"
    and searched: "\<And>r s2 v flds s3.
        fetch (mem_env zero_embedding) ''http://localhost:11434/api/embeddings''
          ''nomic-embed-text:latest'' ''hello'' wide_store = (Inr r, s2) \<Longrightarrow> ok r
        \<Longrightarrow> body_json r = Inr v
        \<Longrightarrow> schema (mem_env zero_embedding) ''wide'' s2 = (Inr flds, s3)
        \<Longrightarrow> find isVectorField flds \<noteq> None
        \<Longrightarrow> searchedVectors
              (fst (snd (CallTool (mem_env zero_embedding) ''vector_search'' text_args wide_store)))
            = [v]"
    unfolding cfg name by blast+
  have "searchedVectors
        (fst (snd (CallTool (mem_env zero_embedding) ''vector_search'' text_args wide_store))) =
       [zeros12]"
    by (rule searched [OF answer _ _ mem_wide_schema found]) simp_all
  note wide = this
  have dname: "table_name docs_text_parsed = ''docs''"
    and d2: "query_vector docs_text_parsed = None"
    and d3: "query_text docs_text_parsed = Some ''hello''"
    by (simp_all add: docs_text_parsed_def)
  have d5: "openTable (mem_env zero_embedding) (table_name docs_text_parsed) docs_store
      = (Inr (), docs_store)"
    by (simp add: dname mem_env_def mem_openTable_def docs_store_has_docs)
  have danswer: "fetch (mem_env zero_embedding) ''http://localhost:11434/api/embeddings''
        ''nomic-embed-text:latest'' ''hello'' docs_store = (Inr ?r, docs_store)"
    by (simp add: mem_env_def mem_fetch_def zero_embedding_def)
  have dschema: "schema (mem_env zero_embedding) ''docs'' docs_store =
       (Inr [\<lparr>field_name = ''vector'', typeId = 16, listSize = 2\<rparr>], docs_store)"
    by (simp add: mem_env_def mem_schema_def docs_store_has_docs)
  have missing: "find isVectorField [\<lparr>field_name = ''vector'', typeId = 16, listSize = 2\<rparr>] = None"
    by (simp add: isVectorField_def)
  from search_by_text_embeds_once [OF docs_text_args_valid d2 d3 h4 d5]
  have dcalls: "embeddingCalls
        (fst (snd (CallTool (mem_env zero_embedding) ''vector_search'' docs_text_args docs_store))) =
       [Fetch ''http://localhost:11434/api/embeddings'' ''nomic-embed-text:latest'' ''hello'']"
    and unsearched: "\<And>r s2 v flds s3.
        fetch (mem_env zero_embedding) ''http://localhost:11434/api/embeddings''
          ''nomic-embed-text:latest'' ''hello'' docs_store = (Inr r, s2) \<Longrightarrow> ok r
        \<Longrightarrow> body_json r = Inr v
        \<Longrightarrow> schema (mem_env zero_embedding) ''docs'' s2 = (Inr flds, s3)
        \<Longrightarrow> find isVectorField flds = None
        \<Longrightarrow> searchedVectors
              (fst (snd (CallTool (mem_env zero_embedding) ''vector_search'' docs_text_args
                 docs_store)))
            = []"
    unfolding cfg dname by blast+
  have "searchedVectors
        (fst (snd (CallTool (mem_env zero_embedding) ''vector_search'' docs_text_args docs_store))) =
       []"
    by (rule unsearched [OF danswer _ _ dschema missing]) simp_all
  with wide calls answer text_args_valid h2 h3 mem_wide_open
    dcalls danswer docs_text_args_valid d2 d3 d5 dschema missing
  show ?thesis
    by (simp add: dname)
qed

text \<open>
  C4 as the specification states it fails: a call that supplies \<^verbatim>\<open>query_text\<close> together
  with \<^verbatim>\<open>query_vector\<close> searches with the given vector and never calls the embedding
  endpoint.
\<close>

theorem search_with_both_skips_embedding_counterexample:
  "supplied both_args ''query_text''
   \<and> embeddingCalls
        (fst (snd (CallTool (mem_env zero_embedding) ''vector_search'' both_args wide_store))) = []
   \<and> fst (snd (CallTool (mem_env zero_embedding) ''vector_search'' both_args wide_store)) =
       [OpenTable ''wide'', Schema ''wide'', ToArray ''wide'' (default_query zeros12)]"
proof -
  have name: "table_name both_parsed = ''wide''"
    by (simp add: both_parsed_def)
  have res: "resolveSearchVector (mem_env zero_embedding) both_parsed wide_store =
      (Inr zeros12, [], wide_store)"
    by (simp add: resolve_query_vector both_parsed_def)
  have open_ok: "openTable (mem_env zero_embedding) (table_name both_parsed) wide_store
      = (Inr (), wide_store)"
    by (simp add: name mem_wide_open)
  have evs: "fst (snd (CallTool (mem_env zero_embedding) ''vector_search'' both_args wide_store)) =
       [OpenTable ''wide'', Schema ''wide'', ToArray ''wide'' (default_query zeros12)]"
    unfolding CallTool_search_events [OF both_args_valid] try_resolved [OF open_ok res]
      searchWithVector_events
    by (simp add: name mem_wide_schema isVectorField_def both_query dimensionWarning_def
        zeros12_def)
  have "supplied both_args ''query_text''"
    by (simp add: supplied_def both_args_def)
  with evs show ?thesis
    by (simp add: embeddingCalls_def)
qed

text \<open>
  The amended C4 asks for a non-empty text: the empty string passes the validator, which
  only tests for \<^verbatim>\<open>undefined\<close>, and then fails the truthiness test of the handler, so that
  the search is refused without a call of the embedding endpoint.
\<close>

lemma search_with_empty_text_fails:
  assumes "VectorSearchArgsSchema args = Inr a"
    and "query_vector a = None" and "query_text a = Some []"
    and "openTable env (table_name a) s = (Inr (), s1)"
  shows "CallTool env ''vector_search'' args s =
    (\<lparr>content_text = ''Error: Error searching table '' @ table_name a
         @ '': Error: Either query_vector or query_text must be provided'', isError = True\<rparr>,
     [OpenTable (table_name a)], s1)"
proof -
  have "resolveSearchVector env a s1 =
      (Inl (new_Error ''Either query_vector or query_text must be provided''), [], s1)"
    using assms(2,3) by (simp add: resolveSearchVector_def truthy_def)
  then show ?thesis
    by (simp add: CallTool_search [OF assms(1)] try_resolve_failed [OF assms(4)] toString_def
        new_Error_def)
qed

subsection \<open>C5: The one-of constraint of the validator\<close>

text \<open>
  C5 (as amended). At least one of \<^verbatim>\<open>query_vector\<close> and \<^verbatim>\<open>query_text\<close> must be
  supplied: the validator rejects a call that supplies neither, and it accepts a call whose
  fields are well-typed exactly when it supplies at least one of them, so also when it
  supplies both.
\<close>

theorem search_needs_at_least_one_query:
  "(\<not> supplied args ''query_vector'' \<and> \<not> supplied args ''query_text''
      \<longrightarrow> (\<exists>zerr. VectorSearchArgsSchema args = Inl zerr))
   \<and> (VectorSearchArgsObject args = Inr a
      \<longrightarrow> (VectorSearchArgsSchema args = Inr a
            \<longleftrightarrow> supplied args ''query_vector'' \<or> supplied args ''query_text''))"
proof (intro conjI impI)
  assume "\<not> supplied args ''query_vector'' \<and> \<not> supplied args ''query_text''"
  then show "\<exists>zerr. VectorSearchArgsSchema args = Inl zerr"
    using not_supplied_rejected by blast
next
  assume "VectorSearchArgsObject args = Inr a"
  then show "VectorSearchArgsSchema args = Inr a
      \<longleftrightarrow> supplied args ''query_vector'' \<or> supplied args ''query_text''"
    by (simp add: VectorSearchArgsSchema_Inr supplied_parsed)
qed

theorem search_needs_at_least_one_query_witness:
  "\<not> supplied no_query_args ''query_vector'' \<and> \<not> supplied no_query_args ''query_text''
   \<and> (\<exists>zerr. VectorSearchArgsSchema no_query_args = Inl zerr)
   \<and> VectorSearchArgsObject both_args = Inr both_parsed
   \<and> supplied both_args ''query_vector'' \<and> supplied both_args ''query_text''
   \<and> VectorSearchArgsSchema both_args = Inr both_parsed"
proof -
  have h: "\<not> supplied no_query_args ''query_vector'' \<and> \<not> supplied no_query_args ''query_text''"
    by (simp add: supplied_def no_query_args_def)
  have obj: "VectorSearchArgsObject both_args = Inr both_parsed"
    by (simp add: VectorSearchArgsObject_Inr both_args_def both_parsed_def)
  have sup: "supplied both_args ''query_vector'' \<and> supplied both_args ''query_text''"
    by (simp add: supplied_def both_args_def)
  show ?thesis
    using h obj sup
      search_needs_at_least_one_query [of no_query_args both_parsed]
      search_needs_at_least_one_query [of both_args both_parsed]
    by simp
qed

text \<open>
  C5 as the specification states it fails: a call that supplies both \<^verbatim>\<open>query_vector\<close> and
  \<^verbatim>\<open>query_text\<close> passes the validator.
\<close>

theorem both_queries_accepted_counterexample:
  "supplied both_args ''query_vector'' \<and> supplied both_args ''query_text''
   \<and> VectorSearchArgsSchema both_args = Inr both_parsed"
  by (simp add: supplied_def VectorSearchArgsSchema_Inr VectorSearchArgsObject_Inr both_args_def
      both_parsed_def)

subsection \<open>C6: The dimension of the query vector\<close>



subsection \<open>C7: Errors of the collaborators\<close>




subsection \<open>C8: The example of the first add\<close>




subsection \<open>C9: Tables with a short vector column\<close>

text \<open>
  C9. On a table that opens and whose schema has no field with type tag 16 and list size
  above 10, a valid search whose query vector is resolved fails with
  \<^verbatim>\<open>No vector column found in the table\<close>: so does every search of a table whose vector
  column has 10 dimensions or fewer.
\<close>

theorem search_needs_vector_column_above_10:
  assumes "VectorSearchArgsSchema args = Inr a"
    and "openTable env (table_name a) s = (Inr (), s1)"
    and "resolveSearchVector env a s1 = (Inr v, evs, s2)"
    and "schema env (table_name a) s2 = (Inr flds, s3)"
    and "\<forall>f \<in> set flds. \<not> (typeId f = 16 \<and> listSize f > 10)"
  shows "CallTool env ''vector_search'' args s =
      (\<lparr>content_text = ''Error: Error searching table '' @ table_name a
           @ '': Error: No vector column found in the table'', isError = True\<rparr>,
       OpenTable (table_name a) # evs @ [Schema (table_name a)], s3)
    \<and> str_includes (content_text (fst (CallTool env ''vector_search'' args s)))
        ''No vector column found in the table''"
proof -
  have none: "find isVectorField flds = None"
    using assms(5) by (simp add: no_vector_field)
  have run: "CallTool env ''vector_search'' args s =
      (\<lparr>content_text = ''Error: Error searching table '' @ table_name a
           @ '': Error: No vector column found in the table'', isError = True\<rparr>,
       OpenTable (table_name a) # evs @ [Schema (table_name a)], s3)"
    by (simp add: CallTool_search [OF assms(1)] try_resolved [OF assms(2,3)]
        searchWithVector_no_column [OF assms(4) none] toString_def new_Error_def)
  have "str_includes
      ((''Error: Error searching table '' @ table_name a @ '': Error: '')
         @ ''No vector column found in the table'' @ [])
      ''No vector column found in the table''"
    by (rule str_includes_append)
  with run show ?thesis by simp
qed

theorem search_needs_vector_column_above_10_witness:
  "VectorSearchArgsSchema (short_args ''docs'') = Inr (short_parsed ''docs'')
   \<and> openTable (mem_env zero_embedding) ''docs'' docs_store = (Inr (), docs_store)
   \<and> resolveSearchVector (mem_env zero_embedding) (short_parsed ''docs'') docs_store =
       (Inr [1/10, 2/10], [], docs_store)
   \<and> schema (mem_env zero_embedding) ''docs'' docs_store =
       (Inr [\<lparr>field_name = ''vector'', typeId = 16, listSize = 2\<rparr>], docs_store)
   \<and> CallTool (mem_env zero_embedding) ''vector_search'' (short_args ''docs'') docs_store =
       (\<lparr>content_text =
           ''Error: Error searching table docs: Error: No vector column found in the table'',
         isError = True\<rparr>,
        [OpenTable ''docs'', Schema ''docs''], docs_store)"
proof -
  have name: "table_name (short_parsed ''docs'') = ''docs''"
    by (simp add: short_parsed_def)
  have h2: "openTable (mem_env zero_embedding) (table_name (short_parsed ''docs'')) docs_store
      = (Inr (), docs_store)"
    by (simp add: name mem_env_def mem_openTable_def docs_store_def)
  have h3: "resolveSearchVector (mem_env zero_embedding) (short_parsed ''docs'') docs_store =
       (Inr [1/10, 2/10], [], docs_store)"
    by (simp add: resolve_query_vector short_parsed_def)
  have h4: "schema (mem_env zero_embedding) (table_name (short_parsed ''docs'')) docs_store =
       (Inr [\<lparr>field_name = ''vector'', typeId = 16, listSize = 2\<rparr>], docs_store)"
    by (simp add: name mem_env_def mem_schema_def docs_store_def)
  have h5: "\<forall>f \<in> set [\<lparr>field_name = ''vector'', typeId = 16, listSize = 2\<rparr>].
      \<not> (typeId f = 16 \<and> listSize f > 10)"
    by simp
  show ?thesis
    using short_args_valid h2 h3 h4
      search_needs_vector_column_above_10 [OF short_args_valid h2 h3 h4 h5]
    by (simp add: name)
qed

subsection \<open>C10: An empty batch\<close>

text \<open>
  C10. The validator accepts an empty \<^verbatim>\<open>vectors\<close> array. On a table that opens, the
  handler then appends the empty batch and answers \<^verbatim>\<open>Added 0 vectors to table ..\<close>; in
  the in-memory store the tables are the same afterwards.
\<close>

theorem vector_add_empty_batch:
  assumes "data ''table_name'' = Some (JStr t)"
    and "data ''vectors'' = Some (JArr [])"
  shows "VectorAddArgsSchema (Some data) = Inr (t, [])
    \<and> (\<forall>s s1 s2. openTable env t s = (Inr (), s1) \<and> add env t [] s1 = (Inr (), s2) \<longrightarrow>
          CallTool env ''vector_add'' (Some data) s =
            (\<lparr>content_text = ''Added 0 vectors to table '' @ t, isError = False\<rparr>,
             [OpenTable t, Add t []], s2))
    \<and> (\<forall>s tb. map_of s t = Some tb \<longrightarrow>
          CallTool (mem_env embedding_of) ''vector_add'' (Some data) s =
            (\<lparr>content_text = ''Added 0 vectors to table '' @ t, isError = False\<rparr>,
             [OpenTable t, Add t []], s))"
proof -
  have valid: "VectorAddArgsSchema (Some data) = Inr (t, [])"
    using assms by (simp add: VectorAddArgsSchema_Inr)
  have general: "CallTool env' ''vector_add'' (Some data) s =
      (\<lparr>content_text = ''Added 0 vectors to table '' @ t, isError = False\<rparr>,
       [OpenTable t, Add t []], s2)"
    if "openTable env' t s = (Inr (), s1)" and "add env' t [] s1 = (Inr (), s2)"
    for env' :: "'b env" and s s1 s2
    using CallTool_add_appended [OF valid that] by (simp add: show_nat.simps)
  show ?thesis
    using valid general [of env] general [of "mem_env embedding_of"]
    by (auto simp: mem_open_present mem_add_nothing)
qed

theorem vector_add_empty_batch_witness:
  "empty_batch ''table_name'' = Some (JStr ''docs'') \<and> empty_batch ''vectors'' = Some (JArr [])
   \<and> VectorAddArgsSchema (Some empty_batch) = Inr (''docs'', [])
   \<and> CallTool (mem_env zero_embedding) ''vector_add'' (Some empty_batch) docs_store =
       (\<lparr>content_text = ''Added 0 vectors to table docs'', isError = False\<rparr>,
        [OpenTable ''docs'', Add ''docs'' []], docs_store)"
proof -
  have h1: "empty_batch ''table_name'' = Some (JStr ''docs'')"
    and h2: "empty_batch ''vectors'' = Some (JArr [])"
    by (simp_all add: empty_batch_def)
  show ?thesis
    using h1 h2 docs_store_has_docs
      vector_add_empty_batch [OF h1 h2, of "mem_env zero_embedding" zero_embedding]
    by simp
qed

end
